theory Spec2Isabelle
  imports Complex_Main
begin

section \<open>Floating-point values\<close>

text \<open>
  The scores and the cells of the migration matrix are Python/NumPy floats. A float is
  either a finite number, an infinity or NaN. The finite values are modelled as reals:
  the thresholds 8.0, 6.0 and 4.0 are exactly representable, so comparing a finite float
  with them gives what comparing its real value gives. Addition and division of finite
  values are idealised to exact real arithmetic (no rounding, no overflow).
\<close>

datatype float64 = Fin real | PInf | NInf | NaN

text \<open>\<open>a <= b\<close> on floats: every comparison with NaN is False.\<close>

fun fle :: "float64 \<Rightarrow> float64 \<Rightarrow> bool" where
  "fle NaN _ = False"
| "fle _ NaN = False"
| "fle NInf _ = True"
| "fle _ PInf = True"
| "fle (Fin a) (Fin b) = (a \<le> b)"
| "fle PInf _ = False"
| "fle _ NInf = False"

text \<open>\<open>a >= b\<close> is \<open>b <= a\<close>.\<close>

definition fge :: "float64 \<Rightarrow> float64 \<Rightarrow> bool" where
  "fge a b = fle b a"

fun fadd :: "float64 \<Rightarrow> float64 \<Rightarrow> float64" where
  "fadd NaN _ = NaN"
| "fadd _ NaN = NaN"
| "fadd PInf NInf = NaN"
| "fadd NInf PInf = NaN"
| "fadd PInf _ = PInf"
| "fadd _ PInf = PInf"
| "fadd NInf _ = NInf"
| "fadd _ NInf = NInf"
| "fadd (Fin a) (Fin b) = Fin (a + b)"

text \<open>\<open>np.sum\<close> of a one-dimensional array: the elements added up from 0.\<close>

definition np_sum :: "float64 list \<Rightarrow> float64" where
  "np_sum xs = foldl fadd (Fin 0) xs"

section \<open>The classifier: \<open>Data.assign_regime_type\<close>\<close>

definition assign_regime_type :: "float64 \<Rightarrow> string" where
  "assign_regime_type democracy_index =
     (let regime_type = ''Authoritarian'' in
      if fge democracy_index (Fin 8) then ''Full democracy''
      else if fge democracy_index (Fin 6) then ''Flawed democracy''
      else if fge democracy_index (Fin 4) then ''Hybrid regime''
      else regime_type)"

text \<open>The list \<open>regimes\<close> of \<open>get_migration_matrix\<close>; its order is the category order.\<close>

definition regimes :: "string list" where
  "regimes = [''Authoritarian'', ''Hybrid regime'', ''Flawed democracy'', ''Full democracy'']"

definition n_regimes :: nat where
  "n_regimes = length regimes"

text \<open>The position of a category in \<open>regimes\<close> (\<open>length regimes\<close> when it is not there).\<close>

fun index_of :: "'a \<Rightarrow> 'a list \<Rightarrow> nat" where
  "index_of x [] = 0"
| "index_of x (y # ys) = (if x = y then 0 else Suc (index_of x ys))"

definition regime_rank :: "string \<Rightarrow> nat" where
  "regime_rank r = index_of r regimes"


section \<open>The data: \<open>Data._setup_data\<close>\<close>

text \<open>
  The CSV file after parsing and after the rank columns are dropped: the identifying
  columns Region, Country and RegimeType, and one column of scores for each year. A row
  holds the cells of the year columns in the order of the header; a cell the file leaves
  empty is NaN.
\<close>

record ids =
  Region :: string
  Country :: string
  RegimeType :: string

record wide_row = ids +
  cells :: "float64 list"

record table =
  year_cols :: "int list"
  wrows :: "wide_row list"

text \<open>A row of the long form: one country in one year.\<close>

record long_row = ids +
  Year :: int
  DemocracyIndex :: float64

definition cell_at :: "wide_row \<Rightarrow> nat \<Rightarrow> float64" where
  "cell_at r k = (if k < length (cells r) then cells r ! k else NaN)"

definition long_of :: "nat \<Rightarrow> int \<Rightarrow> wide_row \<Rightarrow> long_row" where
  "long_of k y r = \<lparr>Region = Region r, Country = Country r, RegimeType = RegimeType r,
                    Year = y, DemocracyIndex = cell_at r k\<rparr>"

text \<open>
  \<open>DataFrame.melt\<close> with the three identifying columns: for each year column, in the
  order of the header, one long row for each row of the table, in the order of the table.
\<close>

definition melt :: "table \<Rightarrow> long_row list" where
  "melt t = concat (map (\<lambda>(k, y). map (long_of k y) (wrows t)) (enumerate 0 (year_cols t)))"

text \<open>\<open>Data().df\<close>: the long form of the file.\<close>

definition setup_data :: "table \<Rightarrow> long_row list" where
  "setup_data t = melt t"

section \<open>\<open>Data.get_yearly_data\<close>\<close>

definition remap_regime :: "long_row \<Rightarrow> long_row" where
  "remap_regime r = r\<lparr>RegimeType := assign_regime_type (DemocracyIndex r)\<rparr>"

definition get_yearly_data :: "table \<Rightarrow> int \<Rightarrow> long_row list" where
  "get_yearly_data t year =
     (let df = setup_data t;
          df = filter (\<lambda>r. Year r = year) df
      in map remap_regime df)"

section \<open>\<open>Data.get_migration_matrix\<close>\<close>

datatype error = ValueError string | WikipediaException | OSError

type_synonym matrix = "float64 list list"

definition np_zeros :: "nat \<Rightarrow> nat \<Rightarrow> matrix" where
  "np_zeros r c = replicate r (replicate c (Fin 0))"

text \<open>
  \<open>a & b\<close> on two one-dimensional boolean arrays, with NumPy's broadcasting: arrays of
  the same length are combined position by position, an array of length 1 is combined
  with every element of the other one, and any other pair of lengths raises ValueError.
  The comparison of the RegimeType column of an empty frame with a string is an empty array.
\<close>

definition np_and :: "bool list \<Rightarrow> bool list \<Rightarrow> error + bool list" where
  "np_and a b =
     (if length a = length b then Inr (map (\<lambda>(x, y). x \<and> y) (zip a b))
      else if length a = 1 then Inr (map (\<lambda>y. hd a \<and> y) b)
      else if length b = 1 then Inr (map (\<lambda>x. x \<and> hd b) a)
      else Inl (ValueError ''operands could not be broadcast together''))"

text \<open>\<open>.sum()\<close> of a boolean array: the number of True entries.\<close>

definition count_true :: "bool list \<Rightarrow> nat" where
  "count_true bs = length (filter (\<lambda>b. b) bs)"

definition set_cell :: "matrix \<Rightarrow> nat \<Rightarrow> nat \<Rightarrow> float64 \<Rightarrow> matrix" where
  "set_cell m i j v = m[i := (m ! i)[j := v]]"

text \<open>
  The boolean array whose sum is cell \<open>(i, j)\<close>:
  \<open>(df1["RegimeType"].to_numpy() == r1) & (df2["RegimeType"].to_numpy() == r2)\<close>.
\<close>

definition cell_mask :: "long_row list \<Rightarrow> long_row list \<Rightarrow> nat \<Rightarrow> nat \<Rightarrow> error + bool list" where
  "cell_mask df1 df2 i j =
     np_and (map (\<lambda>r. RegimeType r = regimes ! i) df1)
            (map (\<lambda>r. RegimeType r = regimes ! j) df2)"

text \<open>The two nested loops over \<open>enumerate(regimes)\<close>, as a loop over the index pairs.\<close>

fun fill_cells :: "long_row list \<Rightarrow> long_row list \<Rightarrow> (nat \<times> nat) list \<Rightarrow> matrix \<Rightarrow> error + matrix" where
  "fill_cells df1 df2 [] m = Inr m"
| "fill_cells df1 df2 ((i, j) # ps) m =
     (case cell_mask df1 df2 i j of
        Inl e \<Rightarrow> Inl e
      | Inr bs \<Rightarrow> fill_cells df1 df2 ps (set_cell m i j (Fin (real (count_true bs)))))"

text \<open>\<open>np.sum(m[:n_regimes, :n_regimes], axis=0)\<close> and \<open>axis=1\<close>.\<close>

definition block_col_sums :: "matrix \<Rightarrow> float64 list" where
  "block_col_sums m = map (\<lambda>j. np_sum (map (\<lambda>i. m ! i ! j) [0..<n_regimes])) [0..<n_regimes]"

definition block_row_sums :: "matrix \<Rightarrow> float64 list" where
  "block_row_sums m = map (\<lambda>i. np_sum (map (\<lambda>j. m ! i ! j) [0..<n_regimes])) [0..<n_regimes]"

text \<open>
  Lines 398 to 410 on the two yearly frames. The index \<open>-1\<close> of an axis of length
  \<open>n_regimes + 1\<close> is \<open>n_regimes\<close>.
\<close>

definition migration_matrix :: "long_row list \<Rightarrow> long_row list \<Rightarrow> error + matrix" where
  "migration_matrix df1 df2 =
     (let m = np_zeros (n_regimes + 1) (n_regimes + 1) in
      case fill_cells df1 df2 (List.product [0..<n_regimes] [0..<n_regimes]) m of
        Inl e \<Rightarrow> Inl e
      | Inr m \<Rightarrow>
          let m = set_cell m n_regimes n_regimes NaN;
              cs = block_col_sums m;
              m = m[n_regimes := cs @ drop n_regimes (m ! n_regimes)];
              rs = block_row_sums m;
              m = map (\<lambda>(i, row). if i < n_regimes then row[n_regimes := rs ! i] else row)
                      (enumerate 0 m)
          in Inr m)"

definition get_migration_matrix :: "table \<Rightarrow> int \<Rightarrow> int \<Rightarrow> error + matrix" where
  "get_migration_matrix t start_year end_year =
     (let df1 = get_yearly_data t start_year;
          df2 = get_yearly_data t end_year
      in migration_matrix df1 df2)"

section \<open>Notions used to state the properties\<close>



text \<open>The pairs of rows that \<open>np_and\<close> combines, when it does not raise.\<close>

definition paired :: "'a list \<Rightarrow> 'a list \<Rightarrow> ('a \<times> 'a) list" where
  "paired xs ys =
     (if length xs = length ys then zip xs ys
      else if length xs = 1 then map (\<lambda>y. (hd xs, y)) ys
      else map (\<lambda>x. (x, hd ys)) xs)"

definition compatible :: "'a list \<Rightarrow> 'b list \<Rightarrow> bool" where
  "compatible xs ys = (length xs = length ys \<or> length xs = 1 \<or> length ys = 1)"

definition pair_count :: "(long_row \<times> long_row) list \<Rightarrow> nat \<Rightarrow> nat \<Rightarrow> nat" where
  "pair_count ps i j =
     length (filter (\<lambda>(a, b). RegimeType a = regimes ! i \<and> RegimeType b = regimes ! j) ps)"


text \<open>
  The matrix that the builder returns for the cell counts \<open>c i j\<close>: the block of counts,
  the row totals in column 4, the column totals in row 4 and NaN in the corner.
\<close>

definition counts_matrix :: "(nat \<Rightarrow> nat \<Rightarrow> nat) \<Rightarrow> matrix" where
  "counts_matrix c =
     [[Fin (real (c 0 0)), Fin (real (c 0 1)), Fin (real (c 0 2)), Fin (real (c 0 3)),
       Fin (real (c 0 0) + real (c 0 1) + real (c 0 2) + real (c 0 3))],
      [Fin (real (c 1 0)), Fin (real (c 1 1)), Fin (real (c 1 2)), Fin (real (c 1 3)),
       Fin (real (c 1 0) + real (c 1 1) + real (c 1 2) + real (c 1 3))],
      [Fin (real (c 2 0)), Fin (real (c 2 1)), Fin (real (c 2 2)), Fin (real (c 2 3)),
       Fin (real (c 2 0) + real (c 2 1) + real (c 2 2) + real (c 2 3))],
      [Fin (real (c 3 0)), Fin (real (c 3 1)), Fin (real (c 3 2)), Fin (real (c 3 3)),
       Fin (real (c 3 0) + real (c 3 1) + real (c 3 2) + real (c 3 3))],
      [Fin (real (c 0 0) + real (c 1 0) + real (c 2 0) + real (c 3 0)),
       Fin (real (c 0 1) + real (c 1 1) + real (c 2 1) + real (c 3 1)),
       Fin (real (c 0 2) + real (c 1 2) + real (c 2 2) + real (c 3 2)),
       Fin (real (c 0 3) + real (c 1 3) + real (c 2 3) + real (c 3 3)),
       NaN]]"

definition zero_counts_matrix :: matrix where
  "zero_counts_matrix =
     [[Fin 0, Fin 0, Fin 0, Fin 0, Fin 0],
      [Fin 0, Fin 0, Fin 0, Fin 0, Fin 0],
      [Fin 0, Fin 0, Fin 0, Fin 0, Fin 0],
      [Fin 0, Fin 0, Fin 0, Fin 0, Fin 0],
      [Fin 0, Fin 0, Fin 0, Fin 0, NaN]]"

text \<open>
  A table with the stored RegimeType labels replaced.
\<close>

definition relabel :: "(wide_row \<Rightarrow> string) \<Rightarrow> table \<Rightarrow> table" where
  "relabel f t = t\<lparr>wrows := map (\<lambda>r. r\<lparr>RegimeType := f r\<rparr>) (wrows t)\<rparr>"

section \<open>\<open>Data.get_world_average\<close>\<close>

text \<open>
  A float sum divided by a positive count.
\<close>

fun fdiv_count :: "float64 \<Rightarrow> nat \<Rightarrow> float64" where
  "fdiv_count (Fin s) n = Fin (s / real n)"
| "fdiv_count PInf n = PInf"
| "fdiv_count NInf n = NInf"
| "fdiv_count NaN n = NaN"

text \<open>
  \<open>Series.mean\<close> with the default \<open>skipna=True\<close>: the mean of the values that are not
  NaN, and NaN when there is none.
\<close>

definition mean_skipna :: "float64 list \<Rightarrow> float64" where
  "mean_skipna vs =
     (let nn = filter (\<lambda>v. v \<noteq> NaN) vs
      in if nn = [] then NaN else fdiv_count (np_sum nn) (length nn))"

text \<open>
  \<open>self.df.groupby("Year")["DemocracyIndex"].mean().reset_index(...)\<close>: one row for each
  year that occurs, in ascending order of the year, with the mean of the scores of the rows
  of that year.
\<close>

definition get_world_average :: "long_row list \<Rightarrow> (int \<times> float64) list" where
  "get_world_average df =
     map (\<lambda>y. (y, mean_skipna (map DemocracyIndex (filter (\<lambda>r. Year r = y) df))))
         (sort (remdups (map Year df)))"

section \<open>\<open>Data.get_raw_data\<close>\<close>

text \<open>
  A table read from the HTML page: the column names and the rows of cells. A cell is a
  string or a number.
\<close>

datatype cell = Str string | Num float64

record html_table =
  columns :: "string list"
  body :: "cell list list"

text \<open>
  Python's \<open>str.replace(old, new)\<close> for a non-empty \<open>old\<close>: every occurrence is
  replaced, from left to right, without overlap. Both calls in \<open>get_raw_data\<close> pass a
  non-empty constant.
\<close>

function str_replace :: "string \<Rightarrow> string \<Rightarrow> string \<Rightarrow> string" where
  "str_replace old new s =
     (if s = [] then []
      else if old \<noteq> [] \<and> take (length old) s = old
           then new @ str_replace old new (drop (length old) s)
      else hd s # str_replace old new (tl s))"
  by pat_completeness auto
termination
  by (relation "measure (\<lambda>(old, new, s). length s)") auto

declare str_replace.simps [simp del]

text \<open>
  The character U+00AD, the soft hyphen of the two region names, and the function that
  \<open>df.map\<close> applies to every cell.
\<close>

definition soft_hyphen :: char where
  "soft_hyphen = CHR 0xAD"

definition fix_region :: "cell \<Rightarrow> cell" where
  "fix_region x =
     (case x of
        Str s \<Rightarrow>
          Str (str_replace (''Latin America and the Carib'' @ [soft_hyphen] @ ''bean'')
                           ''Latin America and the Caribbean''
                 (str_replace (''Asia and Austral'' @ [soft_hyphen] @ ''asia'')
                              ''Asia and Australasia'' s))
      | Num v \<Rightarrow> Num v)"

text \<open>
  \<open>df.rename(columns={"Regime type": "RegimeType"})\<close> and \<open>df.map\<close>.
\<close>

definition rename_columns :: "html_table \<Rightarrow> html_table" where
  "rename_columns df =
     df\<lparr>columns := map (\<lambda>c. if c = ''Regime type'' then ''RegimeType'' else c) (columns df)\<rparr>"

definition map_cells :: "(cell \<Rightarrow> cell) \<Rightarrow> html_table \<Rightarrow> html_table" where
  "map_cells f df = df\<lparr>body := map (map f) (body df)\<rparr>"

text \<open>
  \<open>get_raw_data\<close> talks to the outside: it fetches the page once, parses the tables and
  writes a file. The outside is the pair of arguments: \<open>fetched\<close> is the list of tables of
  the page, or None when \<open>wp.page\<close> raises; \<open>writable\<close> says whether \<open>to_csv\<close>
  can write its file. The result is the list of the actions performed, in order, and the
  outcome. \<open>pd.read_html\<close> raises ValueError on a page without tables; indexing a list of
  one to five tables with 5 raises IndexError, which the code turns into ValueError.
\<close>

datatype event = FetchPage | ReadHtml | WriteCsv html_table

definition get_raw_data :: "html_table list option \<Rightarrow> bool \<Rightarrow> event list \<times> (error + unit)" where
  "get_raw_data fetched writable =
     (case fetched of
        None \<Rightarrow> ([FetchPage], Inl WikipediaException)
      | Some tables \<Rightarrow>
          if tables = [] then ([FetchPage, ReadHtml], Inl (ValueError ''No tables found''))
          else if \<not> 5 < length tables
            then ([FetchPage, ReadHtml],
                  Inl (ValueError ''The expected table was not found on the Wikipedia.''))
          else
            let df = tables ! 5;
                df = rename_columns df;
                df = map_cells fix_region df
            in if writable then ([FetchPage, ReadHtml, WriteCsv df], Inr ())
               else ([FetchPage, ReadHtml], Inl OSError))"

section \<open>Example data\<close>

text \<open>
  The example of the specification: three countries whose categories are Full democracy,
  Hybrid regime and Authoritarian in the first year and Full democracy, Full democracy and
  Authoritarian in the last year, and the matrix built from them. A second table has other
  countries, years and scores and the same categories.
\<close>

definition example_table :: table where
  "example_table = \<lparr>year_cols = [2006, 2024], wrows =
     [\<lparr>Region = ''Western Europe'', Country = ''Norway'', RegimeType = ''Full democracy'', cells = [Fin 9.55, Fin 9.81]\<rparr>,
      \<lparr>Region = ''Asia and Australasia'', Country = ''Bhutan'', RegimeType = ''Hybrid regime'', cells = [Fin 4.62, Fin 8.05]\<rparr>,
      \<lparr>Region = ''Asia and Australasia'', Country = ''Afghanistan'', RegimeType = ''Authoritarian'', cells = [Fin 3.06, Fin 0.25]\<rparr>]\<rparr>"

definition example_matrix :: matrix where
  "example_matrix =
     [[Fin 1, Fin 0, Fin 0, Fin 0, Fin 1],
      [Fin 0, Fin 0, Fin 0, Fin 1, Fin 1],
      [Fin 0, Fin 0, Fin 0, Fin 0, Fin 0],
      [Fin 0, Fin 0, Fin 0, Fin 1, Fin 1],
      [Fin 1, Fin 0, Fin 0, Fin 2, NaN]]"

definition other_table :: table where
  "other_table = \<lparr>year_cols = [2010, 2020], wrows =
     [\<lparr>Region = ''Western Europe'', Country = ''Sweden'', RegimeType = ''Full democracy'', cells = [Fin 9.5, Fin 9.26]\<rparr>,
      \<lparr>Region = ''Sub-Saharan Africa'', Country = ''Mali'', RegimeType = ''Flawed democracy'', cells = [Fin 5, Fin 8]\<rparr>,
      \<lparr>Region = ''Middle East and North Africa'', Country = ''Syria'', RegimeType = ''Authoritarian'', cells = [Fin 2.31, Fin 1.43]\<rparr>]\<rparr>"

text \<open>
  Tables with a single year column, and the table without rows and columns.
\<close>

definition one_year_table :: table where
  "one_year_table = \<lparr>year_cols = [2006], wrows =
     [\<lparr>Region = ''Western Europe'', Country = ''Norway'', RegimeType = ''Full democracy'', cells = [Fin 9.55]\<rparr>,
      \<lparr>Region = ''Asia and Australasia'', Country = ''Bhutan'', RegimeType = ''Hybrid regime'', cells = [Fin 4.62]\<rparr>]\<rparr>"


definition empty_table :: table where
  "empty_table = \<lparr>year_cols = [], wrows = []\<rparr>"






text \<open>
  A table of an HTML page.
\<close>

definition sample_html_table :: html_table where
  "sample_html_table = \<lparr>columns = [''Region'', ''Country'', ''Regime type'', ''2024''],
      body = [[Str (''Asia and Austral'' @ [soft_hyphen] @ ''asia''), Str ''Bhutan'',
               Str ''Flawed democracy'', Num (Fin 5.65)]]\<rparr>"

section \<open>Properties of the classifier\<close>

lemma regimes_distinct: "distinct regimes"
  by (simp add: regimes_def)

lemma assign_regime_type_Fin:
  "assign_regime_type (Fin s) =
     (if 8 \<le> s then ''Full democracy'' else if 6 \<le> s then ''Flawed democracy''
      else if 4 \<le> s then ''Hybrid regime'' else ''Authoritarian'')"
  by (simp add: assign_regime_type_def fge_def)


text \<open>
  Claim C1. For every finite score \<open>s\<close> the classifier returns one of the four categories,
  and which one is decided by the thresholds 8, 6 and 4 with inclusive lower bounds:
  Full democracy exactly when \<open>s >= 8\<close>, Flawed democracy exactly when \<open>6 <= s < 8\<close>,
  Hybrid regime exactly when \<open>4 <= s < 6\<close>, Authoritarian exactly when \<open>s < 4\<close>. The four
  names are pairwise different, so exactly one category is returned. The six boundary
  examples of the specification evaluate as stated. The classifier is a total function
  that returns a category, never an error.
\<close>

theorem classifier_thresholds:
  "assign_regime_type (Fin s) \<in> set regimes
   \<and> distinct regimes
   \<and> (assign_regime_type (Fin s) = ''Full democracy'') = (8 \<le> s)
   \<and> (assign_regime_type (Fin s) = ''Flawed democracy'') = (6 \<le> s \<and> s < 8)
   \<and> (assign_regime_type (Fin s) = ''Hybrid regime'') = (4 \<le> s \<and> s < 6)
   \<and> (assign_regime_type (Fin s) = ''Authoritarian'') = (s < 4)
   \<and> assign_regime_type (Fin 3.999) = ''Authoritarian''
   \<and> assign_regime_type (Fin 4.0) = ''Hybrid regime''
   \<and> assign_regime_type (Fin 5.999) = ''Hybrid regime''
   \<and> assign_regime_type (Fin 6.0) = ''Flawed democracy''
   \<and> assign_regime_type (Fin 7.999) = ''Flawed democracy''
   \<and> assign_regime_type (Fin 8.0) = ''Full democracy''"
  by (simp add: assign_regime_type_Fin regimes_def)

lemma regime_rank_assign:
  "regime_rank (assign_regime_type d) =
     (if fge d (Fin 8) then 3 else if fge d (Fin 6) then 2 else if fge d (Fin 4) then 1 else 0)"
  by (simp add: assign_regime_type_def regime_rank_def regimes_def)

lemma fle_trans: "fle a b \<Longrightarrow> fle b c \<Longrightarrow> fle a c"
  by (cases a; cases b; cases c) simp_all

text \<open>
  Claim C10. The classifier is monotone: when \<open>s1 <= s2\<close> as floats, the category of
  \<open>s1\<close> is not above the category of \<open>s2\<close> in the order Authoritarian, Hybrid regime,
  Flawed democracy, Full democracy (the order of the list \<open>regimes\<close>).
\<close>

theorem classifier_monotone:
  assumes "fle s1 s2"
  shows "regime_rank (assign_regime_type s1) \<le> regime_rank (assign_regime_type s2)"
proof -
  have "fge s1 (Fin t) \<Longrightarrow> fge s2 (Fin t)" for t
    using assms unfolding fge_def by (rule fle_trans[rotated])
  then show ?thesis
    by (simp add: regime_rank_assign)
qed

theorem classifier_monotone_witness:
  "fle (Fin 3.5) (Fin 6.2)
   \<and> regime_rank (assign_regime_type (Fin 3.5)) = 0
   \<and> regime_rank (assign_regime_type (Fin 6.2)) = 2
   \<and> regime_rank (assign_regime_type (Fin 3.5)) \<le> regime_rank (assign_regime_type (Fin 6.2))"
  using classifier_monotone [of "Fin 3.5" "Fin 6.2"]
  by (simp add: regime_rank_assign fge_def)

section \<open>Evaluating the builder\<close>

lemma upt4: "[0..<4] = [0, 1, 2, 3]"
  by (simp add: upt_rec)

lemma n_regimes_4: "n_regimes = 4"
  by (simp add: n_regimes_def regimes_def)



lemma np_and_paired:
  "compatible xs ys \<Longrightarrow>
   np_and (map P xs) (map Q ys) = Inr (map (\<lambda>(a, b). P a \<and> Q b) (paired xs ys))"
  unfolding compatible_def np_and_def paired_def
  by (auto simp: zip_map_map hd_map list_eq_iff_nth_eq)

lemma np_and_incompatible:
  "\<not> compatible xs ys \<Longrightarrow>
   np_and (map P xs) (map Q ys) = Inl (ValueError ''operands could not be broadcast together'')"
  unfolding compatible_def np_and_def by simp

lemma count_true_map: "count_true (map P ps) = length (filter P ps)"
  unfolding count_true_def by (induction ps) auto

lemma cell_mask_compatible:
  "compatible df1 df2 \<Longrightarrow>
   cell_mask df1 df2 i j =
     Inr (map (\<lambda>(a, b). RegimeType a = regimes ! i \<and> RegimeType b = regimes ! j) (paired df1 df2))"
  unfolding cell_mask_def by (rule np_and_paired)

lemma cell_mask_incompatible:
  "\<not> compatible df1 df2 \<Longrightarrow>
   cell_mask df1 df2 i j = Inl (ValueError ''operands could not be broadcast together'')"
  unfolding cell_mask_def by (rule np_and_incompatible)

lemma fill_cells_compatible:
  "compatible df1 df2 \<Longrightarrow>
   fill_cells df1 df2 ps m =
     Inr (foldl (\<lambda>m (i, j). set_cell m i j (Fin (real (pair_count (paired df1 df2) i j)))) m ps)"
  by (induction ps arbitrary: m)
     (auto simp: cell_mask_compatible count_true_map pair_count_def)

lemma fill_cells_incompatible:
  "\<not> compatible df1 df2 \<Longrightarrow> ps \<noteq> [] \<Longrightarrow>
   fill_cells df1 df2 ps m = Inl (ValueError ''operands could not be broadcast together'')"
  by (cases ps) (auto simp: cell_mask_incompatible)

lemma migration_matrix_compatible:
  assumes "compatible df1 df2"
  shows "migration_matrix df1 df2 = Inr (counts_matrix (pair_count (paired df1 df2)))"
  unfolding migration_matrix_def Let_def fill_cells_compatible[OF assms] sum.case
  by (simp add: n_regimes_4 upt4 np_zeros_def set_cell_def block_col_sums_def block_row_sums_def
        np_sum_def eval_nat_numeral counts_matrix_def)

lemma migration_matrix_incompatible:
  assumes "\<not> compatible df1 df2"
  shows "migration_matrix df1 df2 = Inl (ValueError ''operands could not be broadcast together'')"
proof -
  have "List.product [0..<n_regimes] [0..<n_regimes] \<noteq> []"
    by (simp add: n_regimes_4 upt4)
  from fill_cells_incompatible[OF assms this] show ?thesis
    unfolding migration_matrix_def Let_def by simp
qed





lemma counts_matrix_shape:
  "length (counts_matrix c) = 5 \<and> (\<forall>row \<in> set (counts_matrix c). length row = 5)"
  by (simp add: counts_matrix_def)



section \<open>Counting pairs of rows\<close>



lemma pair_count_Nil: "pair_count [] i j = 0"
  by (simp add: pair_count_def)

lemma counts_matrix_empty: "counts_matrix (pair_count []) = zero_counts_matrix"
  by (simp add: counts_matrix_def pair_count_Nil zero_counts_matrix_def)







section \<open>The yearly frames of a table\<close>

lemma set_melt:
  "set (melt t) = {long_of k (year_cols t ! k) r | k r. k < length (year_cols t) \<and> r \<in> set (wrows t)}"
  unfolding melt_def
  apply (auto simp: in_set_enumerate_eq)
   apply blast
  apply (rule_tac x="(k, year_cols t ! k)" in bexI)
   apply (auto simp: in_set_enumerate_eq)
  done

lemma Year_long_of: "Year (long_of k y r) = y"
  by (simp add: long_of_def)





lemma yearly_absent:
  "y \<notin> set (year_cols t) \<Longrightarrow> get_yearly_data t y = []"
  unfolding get_yearly_data_def setup_data_def Let_def
  by (auto simp: set_melt Year_long_of filter_empty_conv)







lemma relabel_yearly: "get_yearly_data (relabel f t) y = get_yearly_data t y"
proof -
  have "remap_regime (long_of k y' (r\<lparr>RegimeType := s\<rparr>)) = remap_regime (long_of k y' r)"
    for k y' s and r :: wide_row
    by (simp add: remap_regime_def long_of_def cell_at_def)
  then have "map remap_regime (melt (relabel f t)) = map remap_regime (melt t)"
    by (simp add: melt_def relabel_def map_concat o_def case_prod_beta)
  moreover have "map remap_regime (filter (\<lambda>r. Year r = y) df)
        = filter (\<lambda>r. Year r = y) (map remap_regime df)" for df
    by (simp add: filter_map o_def remap_regime_def)
  ultimately show ?thesis
    by (simp add: get_yearly_data_def setup_data_def)
qed

section \<open>The example data evaluated\<close>

lemma example_yearly_2006:
  "get_yearly_data example_table 2006 =
    [\<lparr>Region = ''Western Europe'', Country = ''Norway'', RegimeType = ''Full democracy'', Year = 2006, DemocracyIndex = Fin 9.55\<rparr>,
     \<lparr>Region = ''Asia and Australasia'', Country = ''Bhutan'', RegimeType = ''Hybrid regime'', Year = 2006, DemocracyIndex = Fin 4.62\<rparr>,
     \<lparr>Region = ''Asia and Australasia'', Country = ''Afghanistan'', RegimeType = ''Authoritarian'', Year = 2006, DemocracyIndex = Fin 3.06\<rparr>]"
  by (simp add: get_yearly_data_def setup_data_def melt_def example_table_def long_of_def
        cell_at_def remap_regime_def assign_regime_type_Fin)

lemma example_yearly_2024:
  "get_yearly_data example_table 2024 =
    [\<lparr>Region = ''Western Europe'', Country = ''Norway'', RegimeType = ''Full democracy'', Year = 2024, DemocracyIndex = Fin 9.81\<rparr>,
     \<lparr>Region = ''Asia and Australasia'', Country = ''Bhutan'', RegimeType = ''Full democracy'', Year = 2024, DemocracyIndex = Fin 8.05\<rparr>,
     \<lparr>Region = ''Asia and Australasia'', Country = ''Afghanistan'', RegimeType = ''Authoritarian'', Year = 2024, DemocracyIndex = Fin 0.25\<rparr>]"
  by (simp add: get_yearly_data_def setup_data_def melt_def example_table_def long_of_def
        cell_at_def remap_regime_def assign_regime_type_Fin)

lemma example_gmm: "get_migration_matrix example_table 2006 2024 = Inr example_matrix"
  unfolding get_migration_matrix_def Let_def example_yearly_2006 example_yearly_2024
  by (simp add: migration_matrix_def n_regimes_4 upt4 cell_mask_def np_and_def count_true_def
        regimes_def np_zeros_def set_cell_def block_col_sums_def block_row_sums_def np_sum_def
        example_matrix_def eval_nat_numeral)

lemma other_yearly_2010:
  "map RegimeType (get_yearly_data other_table 2010)
     = [''Full democracy'', ''Hybrid regime'', ''Authoritarian'']"
  by (simp add: get_yearly_data_def setup_data_def melt_def other_table_def long_of_def
        cell_at_def remap_regime_def assign_regime_type_Fin)

lemma other_yearly_2020:
  "map RegimeType (get_yearly_data other_table 2020)
     = [''Full democracy'', ''Full democracy'', ''Authoritarian'']"
  by (simp add: get_yearly_data_def setup_data_def melt_def other_table_def long_of_def
        cell_at_def remap_regime_def assign_regime_type_Fin)



lemma one_year_2006:
  "get_yearly_data one_year_table 2006 =
    [\<lparr>Region = ''Western Europe'', Country = ''Norway'', RegimeType = ''Full democracy'', Year = 2006, DemocracyIndex = Fin 9.55\<rparr>,
     \<lparr>Region = ''Asia and Australasia'', Country = ''Bhutan'', RegimeType = ''Hybrid regime'', Year = 2006, DemocracyIndex = Fin 4.62\<rparr>]"
  by (simp add: get_yearly_data_def setup_data_def melt_def one_year_table_def long_of_def
        cell_at_def remap_regime_def assign_regime_type_Fin)

lemma one_year_2007: "get_yearly_data one_year_table 2007 = []"
  by (simp add: yearly_absent one_year_table_def)

lemma empty_yearly: "get_yearly_data empty_table y = []"
  by (simp add: yearly_absent empty_table_def)

section \<open>Properties of the migration matrix\<close>
























text \<open>
  Claim C5 as stated fails twice. With two countries and a start year that is a column and
  an end year that is not, the builder raises ValueError instead of returning a matrix.
  With both collections empty the matrix is not all zeros: cell (4, 4) is NaN.
\<close>

theorem no_failure_modes_counterexample:
  "get_migration_matrix one_year_table 2006 2007
     = Inl (ValueError ''operands could not be broadcast together'')
   \<and> get_migration_matrix empty_table 2006 2024 = Inr zero_counts_matrix
   \<and> zero_counts_matrix ! 4 ! 4 = NaN"
proof -
  have "\<not> compatible (get_yearly_data one_year_table 2006) (get_yearly_data one_year_table 2007)"
    by (simp add: one_year_2006 one_year_2007 compatible_def)
  then have 1: "get_migration_matrix one_year_table 2006 2007
     = Inl (ValueError ''operands could not be broadcast together'')"
    by (simp add: get_migration_matrix_def migration_matrix_incompatible)
  have "compatible (get_yearly_data empty_table 2006) (get_yearly_data empty_table 2024)"
    by (simp add: empty_yearly compatible_def)
  then have 2: "get_migration_matrix empty_table 2006 2024 = Inr zero_counts_matrix"
    by (simp add: get_migration_matrix_def migration_matrix_compatible empty_yearly paired_def
          counts_matrix_empty)
  have 3: "zero_counts_matrix ! 4 ! 4 = NaN"
    by (simp add: zero_counts_matrix_def)
  from 1 2 3 show ?thesis by simp
qed

text \<open>
  Claim C5, amended. The builder returns a matrix exactly when the two yearly collections
  have the same length or one of them has exactly one row; otherwise it raises ValueError,
  its only failure. A matrix it returns has 5 rows of 5 cells. When both collections are
  empty it returns the matrix with 0 in every cell except cell (4, 4), which is NaN.
\<close>

theorem builder_outcomes:
  "(\<exists>m. get_migration_matrix t start_year end_year = Inr m)
     = (length (get_yearly_data t start_year) = length (get_yearly_data t end_year)
        \<or> length (get_yearly_data t start_year) = 1 \<or> length (get_yearly_data t end_year) = 1)
   \<and> (get_migration_matrix t start_year end_year
         = Inl (ValueError ''operands could not be broadcast together''))
     = (\<not> (length (get_yearly_data t start_year) = length (get_yearly_data t end_year)
        \<or> length (get_yearly_data t start_year) = 1 \<or> length (get_yearly_data t end_year) = 1))
   \<and> (\<forall>m. get_migration_matrix t start_year end_year = Inr m
          \<longrightarrow> length m = 5 \<and> (\<forall>row \<in> set m. length row = 5))
   \<and> (get_yearly_data t start_year = [] \<and> get_yearly_data t end_year = []
          \<longrightarrow> get_migration_matrix t start_year end_year = Inr zero_counts_matrix)"
proof (cases "compatible (get_yearly_data t start_year) (get_yearly_data t end_year)")
  case True
  then have m: "get_migration_matrix t start_year end_year =
      Inr (counts_matrix (pair_count (paired (get_yearly_data t start_year) (get_yearly_data t end_year))))"
    by (simp add: get_migration_matrix_def migration_matrix_compatible)
  have e: "get_yearly_data t start_year = [] \<and> get_yearly_data t end_year = []
          \<longrightarrow> get_migration_matrix t start_year end_year = Inr zero_counts_matrix"
    unfolding m by (auto simp: paired_def counts_matrix_empty)
  from True m e counts_matrix_shape show ?thesis
    unfolding compatible_def by simp
next
  case False
  then have m: "get_migration_matrix t start_year end_year =
      Inl (ValueError ''operands could not be broadcast together'')"
    by (simp add: get_migration_matrix_def migration_matrix_incompatible)
  from False have "\<not> (get_yearly_data t start_year = [] \<and> get_yearly_data t end_year = [])"
    unfolding compatible_def by auto
  with False m show ?thesis
    unfolding compatible_def by simp
qed

text \<open>
  Both outcomes occur: the empty table gives the matrix of zero counts, and two countries
  with a missing end year give the ValueError.
\<close>

theorem builder_outcomes_witness:
  "get_yearly_data empty_table 2006 = [] \<and> get_yearly_data empty_table 2024 = []
   \<and> get_migration_matrix empty_table 2006 2024 = Inr zero_counts_matrix
   \<and> length zero_counts_matrix = 5 \<and> map length zero_counts_matrix = [5, 5, 5, 5, 5]
   \<and> length (get_yearly_data one_year_table 2006) = 2
   \<and> length (get_yearly_data one_year_table 2007) = 0
   \<and> get_migration_matrix one_year_table 2006 2007
        = Inl (ValueError ''operands could not be broadcast together'')"
proof -
  have e: "get_yearly_data empty_table 2006 = [] \<and> get_yearly_data empty_table 2024 = []"
    by (simp add: empty_yearly)
  from builder_outcomes[of empty_table 2006 2024] e
  have 1: "get_migration_matrix empty_table 2006 2024 = Inr zero_counts_matrix"
    by blast
  with builder_outcomes[of empty_table 2006 2024]
  have "length zero_counts_matrix = 5 \<and> (\<forall>row \<in> set zero_counts_matrix. length row = 5)"
    by blast
  then have 2: "length zero_counts_matrix = 5 \<and> map length zero_counts_matrix = [5, 5, 5, 5, 5]"
    by (simp add: zero_counts_matrix_def)
  have n: "length (get_yearly_data one_year_table 2006) = 2"
    "length (get_yearly_data one_year_table 2007) = 0"
    by (simp_all add: one_year_2006 one_year_2007)
  then have "\<not> (length (get_yearly_data one_year_table 2006)
                 = length (get_yearly_data one_year_table 2007)
        \<or> length (get_yearly_data one_year_table 2006) = 1
        \<or> length (get_yearly_data one_year_table 2007) = 1)"
    by simp
  with builder_outcomes[of one_year_table 2006 2007]
  have 3: "get_migration_matrix one_year_table 2006 2007
        = Inl (ValueError ''operands could not be broadcast together'')"
    by blast
  from e 1 2 n 3 show ?thesis by blast
qed

lemma cell_mask_cong:
  assumes "map RegimeType df1 = map RegimeType df1'" "map RegimeType df2 = map RegimeType df2'"
  shows "cell_mask df1 df2 i j = cell_mask df1' df2' i j"
proof -
  have eq: "map (\<lambda>r. RegimeType r = x) df = map (\<lambda>c. c = x) (map RegimeType df)"
    for x and df :: "long_row list"
    by (simp add: o_def)
  show ?thesis
    unfolding cell_mask_def eq assms ..
qed

lemma fill_cells_cong:
  assumes "map RegimeType df1 = map RegimeType df1'" "map RegimeType df2 = map RegimeType df2'"
  shows "fill_cells df1 df2 ps m = fill_cells df1' df2' ps m"
  by (induction ps arbitrary: m) (auto simp: cell_mask_cong[OF assms] split: sum.splits)

lemma migration_matrix_cong:
  assumes "map RegimeType df1 = map RegimeType df1'" "map RegimeType df2 = map RegimeType df2'"
  shows "migration_matrix df1 df2 = migration_matrix df1' df2'"
  unfolding migration_matrix_def fill_cells_cong[OF assms] ..

text \<open>
  Claim C6. Two builds that start from the same two category lists give identical results:
  the same error, or matrices equal in every cell. The result depends on nothing else in
  the rows.
\<close>

theorem rebuild_identical:
  assumes "map RegimeType (get_yearly_data t start_year)
             = map RegimeType (get_yearly_data t' start_year')"
    and "map RegimeType (get_yearly_data t end_year)
             = map RegimeType (get_yearly_data t' end_year')"
  shows "get_migration_matrix t start_year end_year = get_migration_matrix t' start_year' end_year'
       \<and> (\<forall>m m'. get_migration_matrix t start_year end_year = Inr m
                \<and> get_migration_matrix t' start_year' end_year' = Inr m'
            \<longrightarrow> (\<forall>i<5. \<forall>j<5. m ! i ! j = m' ! i ! j))"
proof -
  have "get_migration_matrix t start_year end_year = get_migration_matrix t' start_year' end_year'"
    unfolding get_migration_matrix_def Let_def by (rule migration_matrix_cong[OF assms])
  then show ?thesis by auto
qed

text \<open>
  Two tables with different countries, years and scores and the same categories give the
  same matrix.
\<close>

theorem rebuild_identical_witness:
  "map RegimeType (get_yearly_data example_table 2006)
     = map RegimeType (get_yearly_data other_table 2010)
   \<and> map RegimeType (get_yearly_data example_table 2024)
     = map RegimeType (get_yearly_data other_table 2020)
   \<and> get_migration_matrix example_table 2006 2024 = Inr example_matrix
   \<and> get_migration_matrix other_table 2010 2020 = Inr example_matrix"
proof -
  have h1: "map RegimeType (get_yearly_data example_table 2006)
     = map RegimeType (get_yearly_data other_table 2010)"
    by (simp add: example_yearly_2006 other_yearly_2010)
  have h2: "map RegimeType (get_yearly_data example_table 2024)
     = map RegimeType (get_yearly_data other_table 2020)"
    by (simp add: example_yearly_2024 other_yearly_2020)
  from rebuild_identical[OF h1 h2] example_gmm
  have "get_migration_matrix other_table 2010 2020 = Inr example_matrix"
    by simp
  with h1 h2 example_gmm show ?thesis by simp
qed

section \<open>Properties of the yearly data\<close>

text \<open>
  Claim C9. Every row that \<open>get_yearly_data\<close> returns for a year \<open>y\<close> is a row of that
  year whose RegimeType is the classifier's category of the row's own score. The label
  stored in the file is overwritten and never used: replacing the stored labels of the
  table by any others leaves the result unchanged.
\<close>

theorem yearly_regime_from_score:
  "(\<forall>r \<in> set (get_yearly_data t y).
       RegimeType r = assign_regime_type (DemocracyIndex r) \<and> Year r = y)
   \<and> get_yearly_data (relabel f t) y = get_yearly_data t y"
proof -
  have "\<forall>r \<in> set (get_yearly_data t y).
       RegimeType r = assign_regime_type (DemocracyIndex r) \<and> Year r = y"
    by (auto simp: get_yearly_data_def remap_regime_def)
  then show ?thesis
    by (simp add: relabel_yearly)
qed

text \<open>
  Bhutan is stored as a Hybrid regime; its row for 2024, with score 8.05, is returned as a
  Full democracy.
\<close>

theorem yearly_regime_from_score_witness:
  "\<lparr>Region = ''Asia and Australasia'', Country = ''Bhutan'', RegimeType = ''Full democracy'',
      Year = 2024, DemocracyIndex = Fin 8.05\<rparr> \<in> set (get_yearly_data example_table 2024)
   \<and> RegimeType (wrows example_table ! 1) = ''Hybrid regime''
   \<and> assign_regime_type (Fin 8.05) = ''Full democracy''"
proof -
  let ?r = "\<lparr>Region = ''Asia and Australasia'', Country = ''Bhutan'', RegimeType = ''Full democracy'',
      Year = 2024, DemocracyIndex = Fin 8.05\<rparr>"
  have m: "?r \<in> set (get_yearly_data example_table 2024)"
    by (simp add: example_yearly_2024)
  with yearly_regime_from_score[of example_table 2024]
  have "RegimeType ?r = assign_regime_type (DemocracyIndex ?r)" by blast
  then have "assign_regime_type (Fin 8.05) = ''Full democracy''" by simp
  moreover have "RegimeType (wrows example_table ! 1) = ''Hybrid regime''"
    by (simp add: example_table_def)
  ultimately show ?thesis using m by simp
qed

section \<open>Properties of the world average\<close>

lemma foldl_fadd_Fin: "foldl fadd (Fin a) (map Fin xs) = Fin (a + sum_list xs)"
  by (induction xs arbitrary: a) (simp_all add: add.assoc)

lemma mean_skipna_Fin:
  "xs \<noteq> [] \<Longrightarrow> mean_skipna (map Fin xs) = Fin (sum_list xs / real (length xs))"
  by (simp add: mean_skipna_def filter_map o_def np_sum_def foldl_fadd_Fin)

lemma map_of_graph:
  "map_of (map (\<lambda>k. (k, f k)) ks) y = (if y \<in> set ks then Some (f y) else None)"
  by (induction ks) auto

text \<open>
  Claim C7. For a year \<open>y\<close> with at least one observation, the scores of whose observations
  are the finite numbers \<open>xs\<close>, the world average has one row for \<open>y\<close> and its value is
  the arithmetic mean of \<open>xs\<close>: their sum divided by their number.
\<close>

theorem world_average_is_mean:
  assumes "map DemocracyIndex (filter (\<lambda>r. Year r = y) df) = map Fin xs"
    and "xs \<noteq> []"
  shows "map_of (get_world_average df) y = Some (Fin (sum_list xs / real (length xs)))"
proof -
  from assms have "filter (\<lambda>r. Year r = y) df \<noteq> []" by auto
  then have "y \<in> set (map Year df)"
    by (auto simp: filter_empty_conv)
  then have "y \<in> set (sort (remdups (map Year df)))" by simp
  then show ?thesis
    unfolding get_world_average_def map_of_graph assms(1)
    by (simp add: mean_skipna_Fin[OF assms(2)])
qed

text \<open>
  The three scores of 2006 in the example have the mean 17.23 / 3.
\<close>

theorem world_average_is_mean_witness:
  "map DemocracyIndex (filter (\<lambda>r. Year r = 2006) (setup_data example_table))
     = map Fin [9.55, 4.62, 3.06]
   \<and> [9.55, 4.62, 3.06] \<noteq> ([] :: real list)
   \<and> map_of (get_world_average (setup_data example_table)) 2006 = Some (Fin (17.23 / 3))"
proof -
  have h: "map DemocracyIndex (filter (\<lambda>r. Year r = 2006) (setup_data example_table))
     = map Fin [9.55, 4.62, 3.06]"
    by (simp add: setup_data_def melt_def example_table_def long_of_def cell_at_def)
  have n: "[9.55, 4.62, 3.06] \<noteq> ([] :: real list)" by simp
  from world_average_is_mean[OF h n]
  have "map_of (get_world_average (setup_data example_table)) 2006 = Some (Fin (17.23 / 3))"
    by simp
  with h n show ?thesis by simp
qed

section \<open>Properties of the raw-data fetch\<close>

lemma str_replace_example:
  "fix_region (Str (''Asia and Austral'' @ [soft_hyphen] @ ''asia'')) = Str ''Asia and Australasia''"
  by (simp add: fix_region_def str_replace.simps soft_hyphen_def)

text \<open>
  Claim C8. The fetch of the raw data ends in a ValueError exactly when the page was fetched
  and the expected table, the one at index 5, is not among its tables; the error carries a
  non-empty message, and when the page has between one and five tables the message is the
  one of the source. The page is fetched exactly once whatever the outcome: there is no
  retry.
\<close>

theorem raw_data_value_error:
  "(\<exists>msg. snd (get_raw_data fetched writable) = Inl (ValueError msg))
     = (\<exists>tables. fetched = Some tables \<and> \<not> 5 < length tables)
   \<and> (\<forall>msg. snd (get_raw_data fetched writable) = Inl (ValueError msg) \<longrightarrow> msg \<noteq> [])
   \<and> (\<forall>tables. fetched = Some tables \<and> tables \<noteq> [] \<and> \<not> 5 < length tables \<longrightarrow>
         snd (get_raw_data fetched writable)
           = Inl (ValueError ''The expected table was not found on the Wikipedia.''))
   \<and> length (filter (\<lambda>e. e = FetchPage) (fst (get_raw_data fetched writable))) = 1"
  by (cases fetched) (auto simp: get_raw_data_def Let_def)

text \<open>
  A page with two tables: one fetch, one parse, then the ValueError of the source.
\<close>

theorem raw_data_value_error_witness:
  "\<not> 5 < length [sample_html_table, sample_html_table]
   \<and> get_raw_data (Some [sample_html_table, sample_html_table]) True
       = ([FetchPage, ReadHtml],
          Inl (ValueError ''The expected table was not found on the Wikipedia.''))"
proof -
  let ?ts = "[sample_html_table, sample_html_table]"
  have h: "Some ?ts = Some ?ts \<and> ?ts \<noteq> [] \<and> \<not> 5 < length ?ts" by simp
  with raw_data_value_error[of "Some ?ts" True]
  have "snd (get_raw_data (Some ?ts) True)
           = Inl (ValueError ''The expected table was not found on the Wikipedia.'')"
    by blast
  moreover have "fst (get_raw_data (Some ?ts) True) = [FetchPage, ReadHtml]"
    by (simp add: get_raw_data_def)
  ultimately show ?thesis by (simp add: prod_eq_iff)
qed

end
